theory Spec2Isabelle
  imports Main
begin

section \<open>The query builder of go-mysql-qb (main.go)\<close>

text \<open>
  A shallow embedding of the Go package \<^verbatim>\<open>Mysqlqb\<close>. The struct \<^verbatim>\<open>QueryBuilder\<close> is a
  record; every method with the pointer receiver \<^verbatim>\<open>qb *QueryBuilder\<close> is a function of
  the receiver's state. A chaining method returns the receiver, so its model returns the
  new state. A method with other return values returns them paired with the state the
  receiver is left in. The connection \<^verbatim>\<open>DBConnection\<close> is a parameter: a record of the
  answers the driver gives, and every method that calls it also returns the list of the
  calls it made.
\<close>

subsection \<open>Values and library functions\<close>

text \<open>A value of type \<^verbatim>\<open>interface{}\<close>: nil, or a boxed integer, string or boolean.\<close>

datatype gvalue = GNil | GInt int | GString string | GBool bool

text \<open>\<^verbatim>\<open>strings.Join(elems, sep)\<close>.\<close>

fun strings_Join :: "string list \<Rightarrow> string \<Rightarrow> string" where
  "strings_Join [] sep = []"
| "strings_Join [x] sep = x"
| "strings_Join (x # y # ys) sep = x @ sep @ strings_Join (y # ys) sep"

text \<open>The decimal digits of a natural number, most significant first.\<close>

fun digits :: "nat \<Rightarrow> string" where
  "digits n =
     (if n < 10 then [''0123456789'' ! n]
      else digits (n div 10) @ [''0123456789'' ! (n mod 10)])"

declare digits.simps [simp del]

text \<open>\<^verbatim>\<open>fmt.Sprintf("%d", i)\<close> for an \<^verbatim>\<open>int\<close>.\<close>

definition fmt_d :: "int \<Rightarrow> string" where
  "fmt_d i = (if i < 0 then ''-'' @ digits (nat (- i)) else digits (nat i))"

text \<open>\<^verbatim>\<open>(*strings.Builder).WriteString\<close>: the builder is the text written so far.\<close>

definition WriteString :: "string \<Rightarrow> string \<Rightarrow> string" where
  "WriteString query s = query @ s"

subsection \<open>The builder's state\<close>

text \<open>
  The field \<^verbatim>\<open>where\<close> is named \<open>where'\<close> (\<open>where\<close> is a keyword of Isabelle). The
  fields \<^verbatim>\<open>limit\<close> and \<^verbatim>\<open>offset\<close> are only stored, compared with 0 and printed, so
  they are integers without a bound.
\<close>

record QueryBuilder =
  table :: string
  columns :: "string list"
  joins :: "string list"
  where' :: "string list"
  orderBy :: string
  groupBy :: string
  having :: "string list"
  limit :: int
  offset :: int
  parameters :: "gvalue list"

text \<open>\<^verbatim>\<open>Table\<close>: the fields not named in the struct literal hold their zero values.\<close>

definition Table :: "string \<Rightarrow> QueryBuilder" where
  "Table t =
     \<lparr>table = t, columns = [], joins = [], where' = [], orderBy = [], groupBy = [],
      having = [], limit = - 1, offset = - 1, parameters = []\<rparr>"

subsection \<open>Chaining methods\<close>

definition Select :: "QueryBuilder \<Rightarrow> string list \<Rightarrow> QueryBuilder" where
  "Select qb cols = qb\<lparr>columns := columns qb @ cols\<rparr>"

definition Where :: "QueryBuilder \<Rightarrow> string \<Rightarrow> gvalue list \<Rightarrow> QueryBuilder" where
  "Where qb condition params =
     qb\<lparr>where' := where' qb @ [condition], parameters := parameters qb @ params\<rparr>"

text \<open>
  The loop of \<^verbatim>\<open>WhereIn\<close> and of \<^verbatim>\<open>WhereNotIn\<close> (the two bodies are the same but for the
  format string): \<^verbatim>\<open>for i := range values\<close> writes \<^verbatim>\<open>placeholders[i]\<close> and appends
  \<^verbatim>\<open>values[i]\<close> to \<^verbatim>\<open>qb.parameters\<close>.
\<close>

function in_loop ::
  "gvalue list \<Rightarrow> nat \<Rightarrow> string list \<Rightarrow> gvalue list \<Rightarrow> string list \<times> gvalue list" where
  "in_loop values i placeholders params =
     (if i < length values
      then in_loop values (Suc i) (placeholders[i := ''?'']) (params @ [values ! i])
      else (placeholders, params))"
  by pat_completeness auto
termination
  by (relation "measure (\<lambda>(values, i, placeholders, params). length values - i)") auto

declare in_loop.simps [simp del]

definition WhereIn :: "QueryBuilder \<Rightarrow> string \<Rightarrow> gvalue list \<Rightarrow> QueryBuilder" where
  "WhereIn qb column values =
     (let placeholders = replicate (length values) [];
          (placeholders, params) = in_loop values 0 placeholders (parameters qb);
          qb = qb\<lparr>parameters := params\<rparr>
      in qb\<lparr>where' := where' qb @ [column @ '' IN ('' @ strings_Join placeholders '', '' @ '')'']\<rparr>)"

definition WhereNotIn :: "QueryBuilder \<Rightarrow> string \<Rightarrow> gvalue list \<Rightarrow> QueryBuilder" where
  "WhereNotIn qb column values =
     (let placeholders = replicate (length values) [];
          (placeholders, params) = in_loop values 0 placeholders (parameters qb);
          qb = qb\<lparr>parameters := params\<rparr>
      in qb\<lparr>where' := where' qb @ [column @ '' NOT IN ('' @ strings_Join placeholders '', '' @ '')'']\<rparr>)"

definition WhereNull :: "QueryBuilder \<Rightarrow> string \<Rightarrow> QueryBuilder" where
  "WhereNull qb column = qb\<lparr>where' := where' qb @ [column @ '' IS NULL'']\<rparr>"

definition OrWhere :: "QueryBuilder \<Rightarrow> string \<Rightarrow> gvalue list \<Rightarrow> QueryBuilder" where
  "OrWhere qb condition params =
     qb\<lparr>where' := where' qb @ [''OR '' @ condition], parameters := parameters qb @ params\<rparr>"

definition WhereLike :: "QueryBuilder \<Rightarrow> string \<Rightarrow> string \<Rightarrow> QueryBuilder" where
  "WhereLike qb column v =
     qb\<lparr>where' := where' qb @ [column @ '' LIKE ?''],
        parameters := parameters qb @ [GString v]\<rparr>"

definition WhereNotLike :: "QueryBuilder \<Rightarrow> string \<Rightarrow> string \<Rightarrow> QueryBuilder" where
  "WhereNotLike qb column v =
     qb\<lparr>where' := where' qb @ [column @ '' NOT LIKE ?''],
        parameters := parameters qb @ [GString v]\<rparr>"

definition WhereBetween :: "QueryBuilder \<Rightarrow> string \<Rightarrow> gvalue \<Rightarrow> gvalue \<Rightarrow> QueryBuilder" where
  "WhereBetween qb column start end' =
     qb\<lparr>where' := where' qb @ [column @ '' BETWEEN ? AND ?''],
        parameters := parameters qb @ [start, end']\<rparr>"

definition DateBetween :: "QueryBuilder \<Rightarrow> string \<Rightarrow> string \<Rightarrow> string \<Rightarrow> QueryBuilder" where
  "DateBetween qb column start end' =
     qb\<lparr>where' := where' qb @ [column @ '' BETWEEN ? AND ?''],
        parameters := parameters qb @ [GString start, GString end']\<rparr>"

definition Join :: "QueryBuilder \<Rightarrow> string \<Rightarrow> string \<Rightarrow> string \<Rightarrow> QueryBuilder" where
  "Join qb joinType t condition =
     (let join = joinType @ '' JOIN '' @ t @ '' ON '' @ condition
      in qb\<lparr>joins := joins qb @ [join]\<rparr>)"

definition InnerJoin :: "QueryBuilder \<Rightarrow> string \<Rightarrow> string \<Rightarrow> QueryBuilder" where
  "InnerJoin qb t condition = Join qb ''INNER'' t condition"

definition LeftJoin :: "QueryBuilder \<Rightarrow> string \<Rightarrow> string \<Rightarrow> QueryBuilder" where
  "LeftJoin qb t condition = Join qb ''LEFT'' t condition"

definition RightJoin :: "QueryBuilder \<Rightarrow> string \<Rightarrow> string \<Rightarrow> QueryBuilder" where
  "RightJoin qb t condition = Join qb ''RIGHT'' t condition"

definition GroupBy :: "QueryBuilder \<Rightarrow> string list \<Rightarrow> QueryBuilder" where
  "GroupBy qb cols = qb\<lparr>groupBy := strings_Join cols '', ''\<rparr>"

definition Having :: "QueryBuilder \<Rightarrow> string \<Rightarrow> gvalue list \<Rightarrow> QueryBuilder" where
  "Having qb condition params =
     qb\<lparr>having := having qb @ [condition], parameters := parameters qb @ params\<rparr>"

definition OrderBy :: "QueryBuilder \<Rightarrow> string \<Rightarrow> QueryBuilder" where
  "OrderBy qb order = qb\<lparr>orderBy := order\<rparr>"

definition Limit :: "QueryBuilder \<Rightarrow> int \<Rightarrow> QueryBuilder" where
  "Limit qb l = qb\<lparr>limit := l\<rparr>"

definition Offset :: "QueryBuilder \<Rightarrow> int \<Rightarrow> QueryBuilder" where
  "Offset qb off = qb\<lparr>offset := off\<rparr>"

subsection \<open>Rendering\<close>

text \<open>
  \<^verbatim>\<open>Build\<close> returns the query text and the parameters; the second component of the
  result is the receiver's state when the method returns.
\<close>

definition Build :: "QueryBuilder \<Rightarrow> (string \<times> gvalue list) \<times> QueryBuilder" where
  "Build qb =
     (let query = [];
          query = (if length (columns qb) > 0
                   then WriteString query (''SELECT '' @ strings_Join (columns qb) '', '')
                   else WriteString query ''SELECT *'');
          query = WriteString query ('' FROM '' @ table qb);
          query = (if length (joins qb) > 0
                   then WriteString query ('' '' @ strings_Join (joins qb) '' '')
                   else query);
          query = (if length (where' qb) > 0
                   then WriteString query ('' WHERE '' @ strings_Join (where' qb) '' AND '')
                   else query);
          query = (if orderBy qb \<noteq> []
                   then WriteString query ('' ORDER BY '' @ orderBy qb)
                   else query);
          query = (if limit qb \<ge> 0
                   then WriteString query ('' LIMIT '' @ fmt_d (limit qb))
                   else query);
          query = (if offset qb \<ge> 0
                   then WriteString query ('' OFFSET '' @ fmt_d (offset qb))
                   else query)
      in ((query, parameters qb), qb))"

definition BuildSelectQuery :: "QueryBuilder \<Rightarrow> string \<times> QueryBuilder" where
  "BuildSelectQuery qb =
     (let query = [];
          query = (if length (columns qb) > 0
                   then WriteString query (''SELECT '' @ strings_Join (columns qb) '', '')
                   else WriteString query ''SELECT *'');
          query = WriteString query ('' FROM '' @ table qb);
          query = (if length (joins qb) > 0
                   then WriteString query ('' '' @ strings_Join (joins qb) '' '')
                   else query);
          query = (if length (where' qb) > 0
                   then WriteString query ('' WHERE '' @ strings_Join (where' qb) '' AND '')
                   else query)
      in (query, qb))"

subsection \<open>The connection\<close>

text \<open>
  \<^verbatim>\<open>DBConnection\<close> is outside the builder. A call of the driver is recorded with the
  text and the parameters it was given; the driver's answers are functions of them: an
  error message (\<open>Inl\<close>) or the value read.
\<close>

datatype effect =
    QueryRow string "gvalue list"
  | Exec string "gvalue list"
  | Println string "gvalue list"

datatype sql_Result = Result int int

datatype error = GoError string | Panic string

record DB =
  scan_int :: "string \<Rightarrow> gvalue list \<Rightarrow> string + int"
  exec :: "string \<Rightarrow> gvalue list \<Rightarrow> string + sql_Result"

text \<open>
  A \<^verbatim>\<open>map[string]interface{}\<close> is the list of its entries, with distinct keys, in the
  order in which \<^verbatim>\<open>range\<close> yields them. Indexing a missing key gives the zero value
  \<^verbatim>\<open>nil\<close>.
\<close>

type_synonym gomap = "(string \<times> gvalue) list"

definition map_index :: "gomap \<Rightarrow> string \<Rightarrow> gvalue" where
  "map_index m k = (case map_of m k of None \<Rightarrow> GNil | Some v \<Rightarrow> v)"

subsection \<open>Terminal methods\<close>

definition Count :: "DB \<Rightarrow> QueryBuilder \<Rightarrow> (error + int) \<times> effect list \<times> QueryBuilder" where
  "Count db qb =
     (let (inner, qb) = BuildSelectQuery qb;
          countQuery = ''SELECT COUNT(*) FROM ('' @ inner @ '') AS count_query'';
          params = parameters qb
      in (case scan_int db countQuery params of
            Inl err \<Rightarrow> Inl (GoError (''Error counting rows: '' @ err))
          | Inr count \<Rightarrow> Inr count,
          [QueryRow countQuery params], qb))"

text \<open>
  The inner loop of \<^verbatim>\<open>BulkInsert\<close> over \<^verbatim>\<open>columns\<close>: \<^verbatim>\<open>placeholders\<close> has the
  length of the row, so writing \<^verbatim>\<open>placeholders[i]\<close> panics once \<open>i\<close> reaches it.
\<close>

fun row_loop ::
  "gomap \<Rightarrow> string list \<Rightarrow> nat \<Rightarrow> string list \<Rightarrow> gvalue list
   \<Rightarrow> error + (string list \<times> gvalue list)" where
  "row_loop row [] i placeholders params = Inr (placeholders, params)"
| "row_loop row (column # cols) i placeholders params =
     (if i < length placeholders
      then row_loop row cols (Suc i) (placeholders[i := ''?''])
             (params @ [map_index row column])
      else Inl (Panic ''index out of range''))"

text \<open>The outer loop of \<^verbatim>\<open>BulkInsert\<close> over the rows of \<^verbatim>\<open>data\<close>.\<close>

fun rows_loop ::
  "gomap list \<Rightarrow> string list \<Rightarrow> string list \<Rightarrow> gvalue list
   \<Rightarrow> error + (string list \<times> gvalue list)" where
  "rows_loop [] cols values params = Inr (values, params)"
| "rows_loop (row # rows) cols values params =
     (case row_loop row cols 0 (replicate (length row) []) params of
        Inl e \<Rightarrow> Inl e
      | Inr (placeholders, params) \<Rightarrow>
          rows_loop rows cols (values @ [''('' @ strings_Join placeholders '','' @ '')''])
            params)"

definition BulkInsert ::
  "DB \<Rightarrow> QueryBuilder \<Rightarrow> gomap list \<Rightarrow> (error + sql_Result) \<times> effect list \<times> QueryBuilder" where
  "BulkInsert db qb data =
     (case data of
        [] \<Rightarrow> (Inl (GoError ''no data to insert''), [], qb)
      | row0 # _ \<Rightarrow>
          (let cols = map fst row0
           in case rows_loop data cols [] [] of
                Inl e \<Rightarrow> (Inl e, [], qb)
              | Inr (values, params) \<Rightarrow>
                  (let query = ''INSERT INTO '' @ table qb @ '' ('' @ strings_Join cols '',''
                         @ '') VALUES '' @ strings_Join values '',''
                   in (case exec db query params of
                         Inl err \<Rightarrow> Inl (GoError err)
                       | Inr r \<Rightarrow> Inr r,
                       [Exec query params], qb))))"

text \<open>The loop of \<^verbatim>\<open>Update\<close> over the entries of \<^verbatim>\<open>data\<close>.\<close>

fun set_loop :: "gomap \<Rightarrow> string list \<Rightarrow> gvalue list \<Rightarrow> string list \<times> gvalue list" where
  "set_loop [] setClauses params = (setClauses, params)"
| "set_loop ((column, v) # rest) setClauses params =
     set_loop rest (setClauses @ [column @ '' = ?'']) (params @ [v])"

definition Update ::
  "DB \<Rightarrow> QueryBuilder \<Rightarrow> gomap \<Rightarrow> (error + sql_Result) \<times> effect list \<times> QueryBuilder" where
  "Update db qb data =
     (let (setClauses, params) = set_loop data [] [];
          query = ''UPDATE '' @ table qb @ '' SET '' @ strings_Join setClauses '',''
            @ '' WHERE '' @ strings_Join (where' qb) '' AND ''
      in (case exec db query params of
            Inl err \<Rightarrow> Inl (GoError err)
          | Inr r \<Rightarrow> Inr r,
          [Exec query params], qb))"

text \<open>
  \<^verbatim>\<open>PrintQuery\<close> and \<^verbatim>\<open>Delete\<close>. What \<^verbatim>\<open>fmt.Println\<close> writes is recorded as its two
  arguments.
\<close>

definition PrintQuery :: "QueryBuilder \<Rightarrow> effect list \<times> QueryBuilder" where
  "PrintQuery qb = (let ((query, params), qb) = Build qb in ([Println query params], qb))"

definition Delete ::
  "DB \<Rightarrow> QueryBuilder \<Rightarrow> (error + sql_Result) \<times> effect list \<times> QueryBuilder" where
  "Delete db qb =
     (let query = ''DELETE FROM '' @ table qb;
          query = (if length (where' qb) > 0
                   then query @ '' WHERE '' @ strings_Join (where' qb) '' AND ''
                   else query);
          (printed, qb) = PrintQuery qb
      in (case exec db query (parameters qb) of
            Inl err \<Rightarrow> Inl (GoError err)
          | Inr r \<Rightarrow> Inr r,
          printed @ [Exec query (parameters qb)], qb))"

subsection \<open>Sequences of predicate calls\<close>

text \<open>
  A call of one of the methods that add a predicate or a \<^verbatim>\<open>HAVING\<close> fragment, with its
  arguments; \<open>run_calls\<close> makes the calls of a list on a builder, first to last.
\<close>

datatype call =
    CWhere string "gvalue list"
  | CWhereIn string "gvalue list"
  | CWhereNotIn string "gvalue list"
  | CWhereLike string string
  | CWhereNotLike string string
  | CWhereBetween string gvalue gvalue
  | CDateBetween string string string
  | CHaving string "gvalue list"

fun apply_call :: "QueryBuilder \<Rightarrow> call \<Rightarrow> QueryBuilder" where
  "apply_call qb (CWhere condition params) = Where qb condition params"
| "apply_call qb (CWhereIn column vs) = WhereIn qb column vs"
| "apply_call qb (CWhereNotIn column vs) = WhereNotIn qb column vs"
| "apply_call qb (CWhereLike column v) = WhereLike qb column v"
| "apply_call qb (CWhereNotLike column v) = WhereNotLike qb column v"
| "apply_call qb (CWhereBetween column start end') = WhereBetween qb column start end'"
| "apply_call qb (CDateBetween column start end') = DateBetween qb column start end'"
| "apply_call qb (CHaving condition params) = Having qb condition params"

definition run_calls :: "QueryBuilder \<Rightarrow> call list \<Rightarrow> QueryBuilder" where
  "run_calls qb cs = foldl apply_call qb cs"

text \<open>The bind values a call is given, in the order of its arguments.\<close>

fun contributed :: "call \<Rightarrow> gvalue list" where
  "contributed (CWhere condition params) = params"
| "contributed (CWhereIn column vs) = vs"
| "contributed (CWhereNotIn column vs) = vs"
| "contributed (CWhereLike column v) = [GString v]"
| "contributed (CWhereNotLike column v) = [GString v]"
| "contributed (CWhereBetween column start end') = [start, end']"
| "contributed (CDateBetween column start end') = [GString start, GString end']"
| "contributed (CHaving condition params) = params"

text \<open>The number of \<open>?\<close> placeholders in a text.\<close>

definition count_placeholders :: "string \<Rightarrow> nat" where
  "count_placeholders s = count_list s CHR ''?''"

text \<open>
  A call that adds a predicate whose text the caller wrote with as many placeholders as
  bind values (\<^verbatim>\<open>Where\<close>), or whose column name has no placeholder of its own (the
  methods that write the placeholders themselves). A \<^verbatim>\<open>Having\<close> call is not one.
\<close>

fun matched :: "call \<Rightarrow> bool" where
  "matched (CWhere condition params) = (count_placeholders condition = length params)"
| "matched (CWhereIn column vs) = (count_placeholders column = 0)"
| "matched (CWhereNotIn column vs) = (count_placeholders column = 0)"
| "matched (CWhereLike column v) = (count_placeholders column = 0)"
| "matched (CWhereNotLike column v) = (count_placeholders column = 0)"
| "matched (CWhereBetween column start end') = (count_placeholders column = 0)"
| "matched (CDateBetween column start end') = (count_placeholders column = 0)"
| "matched (CHaving condition params) = False"

subsection \<open>The clauses of the rendered text\<close>

text \<open>
  The rendering as the specification words it:
  \<^verbatim>\<open>SELECT <projection|*> FROM <table> [<joins>] [WHERE <predicates AND-joined>]\<close>
  \<^verbatim>\<open>[ORDER BY <orderBy>] [LIMIT <limit>] [OFFSET <offset>]\<close>, one definition for each
  clause, to compare \<open>Build\<close> and \<open>BuildSelectQuery\<close> with.
\<close>

definition spec_select :: "QueryBuilder \<Rightarrow> string" where
  "spec_select qb =
     ''SELECT '' @ (if columns qb = [] then ''*'' else strings_Join (columns qb) '', '')
       @ '' FROM '' @ table qb"

definition spec_joins :: "QueryBuilder \<Rightarrow> string" where
  "spec_joins qb = (if joins qb = [] then [] else '' '' @ strings_Join (joins qb) '' '')"

definition spec_where :: "QueryBuilder \<Rightarrow> string" where
  "spec_where qb =
     (if where' qb = [] then [] else '' WHERE '' @ strings_Join (where' qb) '' AND '')"

definition spec_order :: "QueryBuilder \<Rightarrow> string" where
  "spec_order qb = (if orderBy qb = [] then [] else '' ORDER BY '' @ orderBy qb)"

definition spec_limit :: "QueryBuilder \<Rightarrow> string" where
  "spec_limit qb = (if 0 \<le> limit qb then '' LIMIT '' @ fmt_d (limit qb) else [])"

definition spec_offset :: "QueryBuilder \<Rightarrow> string" where
  "spec_offset qb = (if 0 \<le> offset qb then '' OFFSET '' @ fmt_d (offset qb) else [])"

section \<open>Properties\<close>

subsection \<open>The loop of WhereIn and the count of placeholders\<close>

lemma in_loop_eq:
  "i \<le> length vs \<Longrightarrow> length phs = length vs \<Longrightarrow>
   in_loop vs i phs ps = (take i phs @ replicate (length vs - i) ''?'', ps @ drop i vs)"
proof (induction vs i phs ps rule: in_loop.induct)
  case (1 vs i phs ps)
  show ?case
  proof (cases "i < length vs")
    case True
    have a: "take (Suc i) (phs[i := ''?'']) = take i phs @ [''?'']"
      using True 1(3) by (simp add: take_Suc_conv_app_nth)
    have b: "drop i vs = vs ! i # drop (Suc i) vs"
      using True by (simp add: Cons_nth_drop_Suc)
    have c: "replicate (length vs - i) ''?'' = ''?'' # replicate (length vs - Suc i) ''?''"
      using True by (metis Suc_diff_Suc replicate_Suc)
    show ?thesis
      using True 1 a b c by (subst in_loop.simps) simp
  next
    case False
    then show ?thesis using 1(2,3) by (subst in_loop.simps) simp
  qed
qed

lemma WhereIn_eq:
  "WhereIn qb column vs =
     qb\<lparr>parameters := parameters qb @ vs,
        where' := where' qb
          @ [column @ '' IN ('' @ strings_Join (replicate (length vs) ''?'') '', '' @ '')'']\<rparr>"
  by (simp add: WhereIn_def in_loop_eq)

lemma WhereNotIn_eq:
  "WhereNotIn qb column vs =
     qb\<lparr>parameters := parameters qb @ vs,
        where' := where' qb
          @ [column @ '' NOT IN ('' @ strings_Join (replicate (length vs) ''?'') '', '' @ '')'']\<rparr>"
  by (simp add: WhereNotIn_def in_loop_eq)

lemma count_strings_Join:
  "count_list (strings_Join xs sep) c =
     sum_list (map (\<lambda>x. count_list x c) xs) + (length xs - 1) * count_list sep c"
  by (induction xs sep rule: strings_Join.induct) auto

lemma placeholders_replicate:
  "count_list (strings_Join (replicate n ''?'') '', '') CHR ''?'' = n"
  by (simp add: count_strings_Join sum_list_replicate)

lemma placeholders_append:
  "count_placeholders (xs @ ys) = count_placeholders xs + count_placeholders ys"
  by (simp add: count_placeholders_def)

lemma count_placeholders_fun: "count_placeholders = (\<lambda>x. count_list x CHR ''?'')"
  by (rule ext) (simp add: count_placeholders_def)

lemma placeholders_AND_join:
  "count_placeholders (strings_Join xs '' AND '') = sum_list (map count_placeholders xs)"
  unfolding count_placeholders_fun by (simp add: count_strings_Join)

lemma Build_text:
  "fst (fst (Build qb)) =
     spec_select qb @ spec_joins qb @ spec_where qb @ spec_order qb @ spec_limit qb
       @ spec_offset qb"
  by (simp add: Build_def WriteString_def spec_select_def spec_joins_def spec_where_def
      spec_order_def spec_limit_def spec_offset_def Let_def)

lemma Build_params: "snd (fst (Build qb)) = parameters qb"
  by (simp add: Build_def Let_def)

lemma Build_state: "snd (Build qb) = qb"
  by (simp add: Build_def Let_def)

lemma BuildSelectQuery_text:
  "fst (BuildSelectQuery qb) = spec_select qb @ spec_joins qb @ spec_where qb"
  by (simp add: BuildSelectQuery_def WriteString_def spec_select_def spec_joins_def
      spec_where_def Let_def)

lemma BuildSelectQuery_state: "snd (BuildSelectQuery qb) = qb"
  by (simp add: BuildSelectQuery_def Let_def)

lemma apply_call_where:
  "matched c \<Longrightarrow> \<exists>f. where' (apply_call qb c) = where' qb @ [f]
      \<and> count_placeholders f = length (contributed c)"
  by (cases c)
     (simp_all add: Where_def WhereIn_eq WhereNotIn_eq WhereLike_def WhereNotLike_def
       WhereBetween_def DateBetween_def placeholders_append placeholders_replicate
       count_placeholders_def)

lemma apply_call_parameters:
  "parameters (apply_call qb c) = parameters qb @ contributed c"
  by (cases c)
     (simp_all add: Where_def WhereIn_eq WhereNotIn_eq WhereLike_def WhereNotLike_def
       WhereBetween_def DateBetween_def Having_def)

lemma run_calls_parameters:
  "parameters (run_calls qb cs) = parameters qb @ concat (map contributed cs)"
  unfolding run_calls_def
  by (induction cs arbitrary: qb) (simp_all add: apply_call_parameters)

lemma run_calls_where:
  "\<forall>c\<in>set cs. matched c \<Longrightarrow>
   \<exists>fs. where' (run_calls qb cs) = where' qb @ fs
     \<and> map count_placeholders fs = map (\<lambda>c. length (contributed c)) cs"
  unfolding run_calls_def
proof (induction cs arbitrary: qb)
  case Nil
  then show ?case by simp
next
  case (Cons c cs)
  from Cons.prems have "matched c" by simp
  then obtain f where f: "where' (apply_call qb c) = where' qb @ [f]"
    "count_placeholders f = length (contributed c)"
    using apply_call_where by blast
  from Cons.prems have "\<forall>c\<in>set cs. matched c" by simp
  from Cons.IH [OF this, of "apply_call qb c"] obtain fs where
    fs: "where' (foldl apply_call (apply_call qb c) cs) = where' (apply_call qb c) @ fs"
    "map count_placeholders fs = map (\<lambda>c. length (contributed c)) cs"
    by blast
  show ?case
    using f fs by (intro exI [of _ "f # fs"]) simp
qed

lemma length_concat_sum: "length (concat xss) = sum_list (map length xss)"
  by (induction xss) simp_all

lemma spec_where_placeholders:
  "count_placeholders (spec_where qb) = sum_list (map count_placeholders (where' qb))"
  unfolding count_placeholders_fun by (simp add: spec_where_def count_strings_Join)

lemma apply_call_frame:
  "table (apply_call qb c) = table qb \<and> columns (apply_call qb c) = columns qb
   \<and> joins (apply_call qb c) = joins qb \<and> orderBy (apply_call qb c) = orderBy qb
   \<and> limit (apply_call qb c) = limit qb \<and> offset (apply_call qb c) = offset qb"
  by (cases c)
     (simp_all add: Where_def WhereIn_eq WhereNotIn_eq WhereLike_def WhereNotLike_def
       WhereBetween_def DateBetween_def Having_def)

lemma run_calls_frame:
  "table (run_calls qb cs) = table qb \<and> columns (run_calls qb cs) = columns qb
   \<and> joins (run_calls qb cs) = joins qb \<and> orderBy (run_calls qb cs) = orderBy qb
   \<and> limit (run_calls qb cs) = limit qb \<and> offset (run_calls qb cs) = offset qb"
  unfolding run_calls_def
  by (induction cs arbitrary: qb) (simp_all add: apply_call_frame)

lemma run_calls_fresh_text:
  "fst (fst (Build (run_calls (Table t) cs)))
     = ''SELECT * FROM '' @ t @ spec_where (run_calls (Table t) cs)"
proof -
  have "spec_select (run_calls (Table t) cs) = ''SELECT * FROM '' @ t"
    "spec_joins (run_calls (Table t) cs) = []"
    "spec_order (run_calls (Table t) cs) = []"
    "spec_limit (run_calls (Table t) cs) = []"
    "spec_offset (run_calls (Table t) cs) = []"
    by (simp_all add: spec_select_def spec_joins_def spec_order_def spec_limit_def
        spec_offset_def run_calls_frame Table_def)
  then show ?thesis
    by (simp add: Build_text)
qed

text \<open>
  \<^verbatim>\<open>Delete\<close> leaves the \<^verbatim>\<open>WHERE\<close> clause out when the builder has no predicate;
  \<^verbatim>\<open>Update\<close> has no such test.
\<close>

lemma Delete_without_predicate:
  "fst (snd (Delete db (Table ''users''))) =
     [Println ''SELECT * FROM users'' [], Exec ''DELETE FROM users'' []]"
  by (simp add: Delete_def PrintQuery_def Build_def Table_def WriteString_def Let_def)

subsection \<open>Placeholder parity\<close>

text \<open>
  C1 (placeholder parity), for the calls that keep it. Take a fresh builder on table
  \<open>t\<close> and any sequence of \<^verbatim>\<open>Where\<close>, \<^verbatim>\<open>WhereIn\<close>, \<^verbatim>\<open>WhereNotIn\<close>,
  \<^verbatim>\<open>WhereLike\<close>, \<^verbatim>\<open>WhereNotLike\<close>, \<^verbatim>\<open>WhereBetween\<close> and \<^verbatim>\<open>DateBetween\<close> calls
  in which every \<^verbatim>\<open>Where\<close> condition has as many \<open>?\<close> as bind values and no column
  name has a \<open>?\<close>. Then the k-th predicate fragment has as many placeholders as the
  k-th call gave bind values, the parameters \<open>Build\<close> returns are the calls' bind
  values in call order, the text \<open>Build\<close> returns is \<open>SELECT * FROM t\<close> followed by
  the \<^verbatim>\<open>WHERE\<close> portion, and that portion has as many placeholders as \<open>Build\<close>
  returns parameters (so the whole text has, when the table name has none).
\<close>

theorem C1_placeholder_parity:
  assumes "\<forall>c\<in>set cs. matched c"
  shows "map count_placeholders (where' (run_calls (Table t) cs))
           = map (\<lambda>c. length (contributed c)) cs
       \<and> snd (fst (Build (run_calls (Table t) cs))) = concat (map contributed cs)
       \<and> fst (fst (Build (run_calls (Table t) cs)))
           = ''SELECT * FROM '' @ t @ spec_where (run_calls (Table t) cs)
       \<and> count_placeholders (spec_where (run_calls (Table t) cs))
           = length (snd (fst (Build (run_calls (Table t) cs))))
       \<and> count_placeholders (fst (fst (Build (run_calls (Table t) cs))))
           = count_placeholders t + length (snd (fst (Build (run_calls (Table t) cs))))"
proof -
  let ?qb = "run_calls (Table t) cs"
  obtain fs where fs: "where' ?qb = where' (Table t) @ fs"
    "map count_placeholders fs = map (\<lambda>c. length (contributed c)) cs"
    using run_calls_where [OF assms] by blast
  have w: "where' ?qb = fs" using fs(1) by (simp add: Table_def)
  have p: "parameters ?qb = concat (map contributed cs)"
    by (simp add: run_calls_parameters Table_def)
  have "count_placeholders (spec_where ?qb) = sum_list (map count_placeholders fs)"
    by (simp add: spec_where_placeholders w)
  also have "\<dots> = sum_list (map length (map contributed cs))"
    by (simp add: fs(2) comp_def)
  also have "\<dots> = length (parameters ?qb)"
    by (simp add: p length_concat_sum)
  finally have n: "count_placeholders (spec_where ?qb) = length (parameters ?qb)" .
  have "count_placeholders ''SELECT * FROM '' = 0"
    by (simp add: count_placeholders_def)
  then have "count_placeholders (''SELECT * FROM '' @ t @ spec_where ?qb)
               = count_placeholders t + length (parameters ?qb)"
    by (simp only: placeholders_append n)
  then show ?thesis
    using w fs(2) p n by (simp add: Build_params run_calls_fresh_text)
qed

text \<open>C1 at a sequence of three calls on table \<open>users\<close>: five placeholders, five parameters.\<close>

theorem C1_placeholder_parity_witness:
  "(matched (CWhere ''age > ?'' [GInt 18]) \<and> matched (CWhereIn ''id'' [GInt 1, GInt 2])
      \<and> matched (CWhereBetween ''d'' (GInt 3) (GInt 4)))
   \<and> snd (fst (Build (run_calls (Table ''users'')
        [CWhere ''age > ?'' [GInt 18], CWhereIn ''id'' [GInt 1, GInt 2],
         CWhereBetween ''d'' (GInt 3) (GInt 4)])))
      = [GInt 18, GInt 1, GInt 2, GInt 3, GInt 4]
   \<and> count_placeholders (fst (fst (Build (run_calls (Table ''users'')
        [CWhere ''age > ?'' [GInt 18], CWhereIn ''id'' [GInt 1, GInt 2],
         CWhereBetween ''d'' (GInt 3) (GInt 4)])))) = 5"
  using C1_placeholder_parity [of "[CWhere ''age > ?'' [GInt 18],
      CWhereIn ''id'' [GInt 1, GInt 2], CWhereBetween ''d'' (GInt 3) (GInt 4)]" "''users''"]
  by (simp add: count_placeholders_def)

text \<open>
  C1 as the specification states it, for every sequence of calls, fails in three ways.
  \<^verbatim>\<open>Where("age > ?")\<close> with no bind value renders one placeholder and returns no
  parameter: the builder does not count placeholders. \<^verbatim>\<open>Having("total > ?", 5)\<close> adds a
  parameter and no rendered text: \<open>Build\<close> never writes the \<^verbatim>\<open>having\<close> fragments.
  \<^verbatim>\<open>WhereLike("note?", "x")\<close> renders the \<open>?\<close> of the column name beside its own
  placeholder and returns one parameter.
\<close>

theorem C1_parity_counterexample:
  "count_placeholders (fst (fst (Build (run_calls (Table ''users'') [CWhere ''age > ?'' []]))))
     \<noteq> length (snd (fst (Build (run_calls (Table ''users'') [CWhere ''age > ?'' []]))))
   \<and> count_placeholders (fst (fst (Build (run_calls (Table ''users'')
        [CHaving ''total > ?'' [GInt 5]]))))
     \<noteq> length (snd (fst (Build (run_calls (Table ''users'')
        [CHaving ''total > ?'' [GInt 5]]))))
   \<and> count_placeholders (fst (fst (Build (run_calls (Table ''users'')
        [CWhereLike ''note?'' ''x'']))))
     \<noteq> length (snd (fst (Build (run_calls (Table ''users'')
        [CWhereLike ''note?'' ''x'']))))"
  by (simp add: run_calls_def Where_def Having_def WhereLike_def Table_def Build_def
      WriteString_def count_placeholders_def)

subsection \<open>Update without a predicate\<close>

text \<open>
  C2. \<^verbatim>\<open>Update({"name": "x"})\<close> on a fresh builder on table \<open>users\<close>, which has no
  predicate, does not fail in the builder: it sends the text
  \<open>UPDATE users SET name = ? WHERE \<close>, which ends in an empty condition, to the driver,
  and returns what the driver answers.
\<close>

theorem C2_update_without_predicate:
  "Update db (Table ''users'') [(''name'', GString ''x'')] =
     (case exec db ''UPDATE users SET name = ? WHERE '' [GString ''x''] of
        Inl err \<Rightarrow> Inl (GoError err)
      | Inr r \<Rightarrow> Inr r,
      [Exec ''UPDATE users SET name = ? WHERE '' [GString ''x'']],
      Table ''users'')"
  by (simp add: Update_def Table_def Let_def)

subsection \<open>The clauses Build writes\<close>

text \<open>
  C3. The text \<open>Build\<close> returns does not depend on the fields \<^verbatim>\<open>groupBy\<close> and
  \<^verbatim>\<open>having\<close>: \<^verbatim>\<open>GroupBy\<close> and \<^verbatim>\<open>Having\<close> store their arguments, and the text is made
  of the SELECT, FROM, JOIN, WHERE, ORDER BY, LIMIT and OFFSET clauses only. A fresh
  builder on \<open>orders\<close> with a grouping and a \<^verbatim>\<open>HAVING\<close> fragment renders
  \<open>SELECT * FROM orders\<close>.
\<close>

theorem C3_no_group_by_having:
  "fst (fst (Build (qb\<lparr>groupBy := g, having := h\<rparr>))) = fst (fst (Build qb))
   \<and> fst (fst (Build (Having (GroupBy qb cols) condition params))) = fst (fst (Build qb))
   \<and> groupBy (Having (GroupBy qb cols) condition params) = strings_Join cols '', ''
   \<and> having (Having (GroupBy qb cols) condition params) = having qb @ [condition]
   \<and> fst (fst (Build qb)) =
       spec_select qb @ spec_joins qb @ spec_where qb @ spec_order qb @ spec_limit qb
         @ spec_offset qb
   \<and> fst (Build (Having (GroupBy (Table ''orders'') [''customer_id'', ''status''])
        ''COUNT(*) > ?'' [GInt 1])) = (''SELECT * FROM orders'', [GInt 1])"
proof -
  have a: "fst (fst (Build (qb\<lparr>groupBy := g, having := h\<rparr>))) = fst (fst (Build qb))" for g h
    by (simp add: Build_def Let_def)
  have b: "fst (fst (Build (Having (GroupBy qb cols) condition params)))
             = fst (fst (Build qb))"
    by (simp add: Build_def Let_def Having_def GroupBy_def)
  have c: "fst (Build (Having (GroupBy (Table ''orders'') [''customer_id'', ''status''])
        ''COUNT(*) > ?'' [GInt 1])) = (''SELECT * FROM orders'', [GInt 1])"
    by (simp add: Build_def Having_def GroupBy_def Table_def WriteString_def)
  show ?thesis
    using a b c by (simp add: Build_text) (simp add: Having_def GroupBy_def)
qed

text \<open>
  C4. \<^verbatim>\<open>Count\<close> makes one call of the driver: the text is
  \<open>SELECT COUNT(*) FROM (\<close>, the text of \<open>BuildSelectQuery\<close>, \<open>) AS count_query\<close>, and
  the parameters are the builder's. The inner text is the SELECT, FROM, JOIN and WHERE
  clauses and does not change with \<^verbatim>\<open>orderBy\<close>, \<^verbatim>\<open>limit\<close> and \<^verbatim>\<open>offset\<close>.
\<close>

theorem C4_count_query:
  "fst (snd (Count db qb)) =
     [QueryRow (''SELECT COUNT(*) FROM ('' @ fst (BuildSelectQuery qb) @ '') AS count_query'')
        (parameters qb)]
   \<and> fst (BuildSelectQuery qb) = spec_select qb @ spec_joins qb @ spec_where qb
   \<and> fst (BuildSelectQuery (qb\<lparr>orderBy := ob, limit := l, offset := off\<rparr>))
       = fst (BuildSelectQuery qb)
   \<and> snd (snd (Count db qb)) = qb
   \<and> fst (snd (Count db (Offset (Limit (OrderBy (Where (Table ''users'') ''age > ?''
        [GInt 18]) ''id DESC'') 10) 5))) =
       [QueryRow ''SELECT COUNT(*) FROM (SELECT * FROM users WHERE age > ?) AS count_query''
          [GInt 18]]"
proof -
  have a: "fst (snd (Count db qb)) =
     [QueryRow (''SELECT COUNT(*) FROM ('' @ fst (BuildSelectQuery qb) @ '') AS count_query'')
        (parameters qb)]" for qb
    by (simp add: Count_def BuildSelectQuery_def Let_def)
  have b: "fst (BuildSelectQuery (qb\<lparr>orderBy := ob, limit := l, offset := off\<rparr>))
       = fst (BuildSelectQuery qb)"
    by (simp add: BuildSelectQuery_def Let_def)
  have c: "snd (snd (Count db qb)) = qb"
    by (simp add: Count_def BuildSelectQuery_def Let_def)
  have d: "fst (BuildSelectQuery (Offset (Limit (OrderBy (Where (Table ''users'') ''age > ?''
        [GInt 18]) ''id DESC'') 10) 5)) = ''SELECT * FROM users WHERE age > ?''"
    by (simp add: BuildSelectQuery_def Offset_def Limit_def OrderBy_def Where_def Table_def
        WriteString_def)
  have e: "parameters (Offset (Limit (OrderBy (Where (Table ''users'') ''age > ?''
        [GInt 18]) ''id DESC'') 10) 5) = [GInt 18]"
    by (simp add: Offset_def Limit_def OrderBy_def Where_def Table_def)
  show ?thesis
    using a [of qb] b c BuildSelectQuery_text [of qb]
    by (simp add: a d e)
qed

text \<open>
  C5. \<open>Build\<close> leaves the builder as it was, so a second call right after the first
  returns the same text and the same parameters, which are the builder's.
\<close>

theorem C5_build_pure:
  "snd (Build qb) = qb \<and> fst (Build (snd (Build qb))) = fst (Build qb)
   \<and> snd (fst (Build qb)) = parameters qb"
  by (simp add: Build_state Build_params)

text \<open>
  C6 (clause-order invariance). \<^verbatim>\<open>Select(a); Where(b); Join(c)\<close> and
  \<^verbatim>\<open>Join(c); Where(b); Select(a)\<close> on the same builder build the same text, and that
  text has the clauses in the order of their kinds: the columns, the table, the joins,
  then the predicates, whichever was called first. On a fresh builder it is
  \<open>SELECT a FROM tb jt JOIN t ON c WHERE b\<close>. Within one kind the text follows the
  call order: two \<^verbatim>\<open>Where\<close> calls around a \<^verbatim>\<open>Join\<close> render the join first and then
  \<open>b1 AND b2\<close>, two \<^verbatim>\<open>Join\<close> calls render in call order, two \<^verbatim>\<open>Select\<close> calls
  render \<open>x, y\<close>.
\<close>

theorem C6_clause_order_invariance:
  "fst (fst (Build (Join (Where (Select qb a) b ps) jt t c)))
     = fst (fst (Build (Select (Where (Join qb jt t c) b ps) a)))
   \<and> fst (fst (Build (Select (Where (Join qb jt t c) b ps) a)))
     = ''SELECT ''
       @ (if columns qb @ a = [] then ''*'' else strings_Join (columns qb @ a) '', '')
       @ '' FROM '' @ table qb
       @ '' '' @ strings_Join (joins qb @ [jt @ '' JOIN '' @ t @ '' ON '' @ c]) '' ''
       @ '' WHERE '' @ strings_Join (where' qb @ [b]) '' AND ''
       @ (if orderBy qb = [] then [] else '' ORDER BY '' @ orderBy qb)
       @ (if 0 \<le> limit qb then '' LIMIT '' @ fmt_d (limit qb) else [])
       @ (if 0 \<le> offset qb then '' OFFSET '' @ fmt_d (offset qb) else [])
   \<and> fst (fst (Build (Join (Where (Select (Table tb) a) b ps) jt t c)))
     = ''SELECT '' @ (if a = [] then ''*'' else strings_Join a '', '') @ '' FROM '' @ tb
       @ '' '' @ jt @ '' JOIN '' @ t @ '' ON '' @ c @ '' WHERE '' @ b
   \<and> fst (fst (Build (Select (Where (Join (Table tb) jt t c) b ps) a)))
     = ''SELECT '' @ (if a = [] then ''*'' else strings_Join a '', '') @ '' FROM '' @ tb
       @ '' '' @ jt @ '' JOIN '' @ t @ '' ON '' @ c @ '' WHERE '' @ b
   \<and> fst (fst (Build (Where (Join (Where (Table tb) b1 ps1) jt t c) b2 ps2)))
     = ''SELECT * FROM '' @ tb @ '' '' @ jt @ '' JOIN '' @ t @ '' ON '' @ c
       @ '' WHERE '' @ b1 @ '' AND '' @ b2
   \<and> fst (fst (Build (Join (Join (Table tb) jt1 t1 c1) jt2 t2 c2)))
     = ''SELECT * FROM '' @ tb @ '' '' @ jt1 @ '' JOIN '' @ t1 @ '' ON '' @ c1
       @ '' '' @ jt2 @ '' JOIN '' @ t2 @ '' ON '' @ c2
   \<and> fst (fst (Build (Select (Select (Table tb) [x]) [y])))
     = ''SELECT '' @ x @ '', '' @ y @ '' FROM '' @ tb
   \<and> fst (fst (Build (Join (Where (Select (Table ''users'') [''id'', ''name''])
        ''age > ?'' [GInt 18]) ''INNER'' ''orders'' ''orders.user_id = users.id'')))
     = ''SELECT id, name FROM users INNER JOIN orders ON orders.user_id = users.id WHERE age > ?''
   \<and> fst (fst (Build (Select (Where (Join (Table ''users'') ''INNER'' ''orders''
        ''orders.user_id = users.id'') ''age > ?'' [GInt 18]) [''id'', ''name''])))
     = ''SELECT id, name FROM users INNER JOIN orders ON orders.user_id = users.id WHERE age > ?''
   \<and> where' (Where (Where qb b1 ps1) b2 ps2) = where' qb @ [b1, b2]
   \<and> joins (Join (Join qb jt1 t1 c1) jt2 t2 c2)
       = joins qb @ [jt1 @ '' JOIN '' @ t1 @ '' ON '' @ c1, jt2 @ '' JOIN '' @ t2 @ '' ON '' @ c2]
   \<and> columns (Select (Select qb a1) a2) = columns qb @ a1 @ a2"
proof -
  have e: "Join (Where (Select qb a) b ps) jt t c = Select (Where (Join qb jt t c) b ps) a"
    for qb a b ps jt t c
    by (simp add: Join_def Where_def Select_def Let_def)
  have g: "fst (fst (Build (Select (Where (Join qb jt t c) b ps) a)))
     = ''SELECT ''
       @ (if columns qb @ a = [] then ''*'' else strings_Join (columns qb @ a) '', '')
       @ '' FROM '' @ table qb
       @ '' '' @ strings_Join (joins qb @ [jt @ '' JOIN '' @ t @ '' ON '' @ c]) '' ''
       @ '' WHERE '' @ strings_Join (where' qb @ [b]) '' AND ''
       @ (if orderBy qb = [] then [] else '' ORDER BY '' @ orderBy qb)
       @ (if 0 \<le> limit qb then '' LIMIT '' @ fmt_d (limit qb) else [])
       @ (if 0 \<le> offset qb then '' OFFSET '' @ fmt_d (offset qb) else [])" for qb
    by (simp add: Build_text spec_select_def spec_joins_def spec_where_def spec_order_def
        spec_limit_def spec_offset_def Join_def Where_def Select_def Let_def)
  have f: "fst (fst (Build (Select (Where (Join (Table tb) jt t c) b ps) a)))
     = ''SELECT '' @ (if a = [] then ''*'' else strings_Join a '', '') @ '' FROM '' @ tb
       @ '' '' @ jt @ '' JOIN '' @ t @ '' ON '' @ c @ '' WHERE '' @ b"
    by (simp add: g) (simp add: Table_def)
  have w: "fst (fst (Build (Where (Join (Where (Table tb) b1 ps1) jt t c) b2 ps2)))
     = ''SELECT * FROM '' @ tb @ '' '' @ jt @ '' JOIN '' @ t @ '' ON '' @ c
       @ '' WHERE '' @ b1 @ '' AND '' @ b2"
    by (simp add: Build_def WriteString_def Join_def Where_def Table_def Let_def)
  have j: "fst (fst (Build (Join (Join (Table tb) jt1 t1 c1) jt2 t2 c2)))
     = ''SELECT * FROM '' @ tb @ '' '' @ jt1 @ '' JOIN '' @ t1 @ '' ON '' @ c1
       @ '' '' @ jt2 @ '' JOIN '' @ t2 @ '' ON '' @ c2"
    by (simp add: Build_def WriteString_def Join_def Table_def Let_def)
  have s: "fst (fst (Build (Select (Select (Table tb) [x]) [y])))
     = ''SELECT '' @ x @ '', '' @ y @ '' FROM '' @ tb"
    by (simp add: Build_def WriteString_def Select_def Table_def Let_def)
  have x: "fst (fst (Build (Select (Where (Join (Table ''users'') ''INNER'' ''orders''
        ''orders.user_id = users.id'') ''age > ?'' [GInt 18]) [''id'', ''name''])))
     = ''SELECT id, name FROM users INNER JOIN orders ON orders.user_id = users.id WHERE age > ?''"
    by (simp add: Build_def WriteString_def Join_def Where_def Select_def Table_def Let_def)
  have l: "where' (Where (Where qb b1 ps1) b2 ps2) = where' qb @ [b1, b2]"
    "joins (Join (Join qb jt1 t1 c1) jt2 t2 c2)
       = joins qb @ [jt1 @ '' JOIN '' @ t1 @ '' ON '' @ c1, jt2 @ '' JOIN '' @ t2 @ '' ON '' @ c2]"
    "columns (Select (Select qb a1) a2) = columns qb @ a1 @ a2"
    by (simp_all add: Join_def Where_def Select_def Let_def)
  show ?thesis
    unfolding e by (intro conjI) (rule refl g f w j s x l)+
qed

text \<open>
  C7. A fresh builder on table \<open>users\<close> after \<^verbatim>\<open>Where("age > ?", 18)\<close>,
  \<^verbatim>\<open>OrderBy("id DESC")\<close>, \<^verbatim>\<open>Limit(10)\<close>, \<^verbatim>\<open>Offset(5)\<close> builds to the text
  \<open>SELECT * FROM users WHERE age > ? ORDER BY id DESC LIMIT 10 OFFSET 5\<close> with the
  parameters \<open>[18]\<close>. A fresh builder renders \<open>*\<close>, and the LIMIT and OFFSET clauses
  are written exactly when the fields are at least 0.
\<close>

theorem C7_where_order_limit_offset:
  "fst (Build (Offset (Limit (OrderBy (Where (Table ''users'') ''age > ?'' [GInt 18])
       ''id DESC'') 10) 5))
     = (''SELECT * FROM users WHERE age > ? ORDER BY id DESC LIMIT 10 OFFSET 5'', [GInt 18])
   \<and> fst (Build (Table t)) = (''SELECT * FROM '' @ t, [])
   \<and> fst (fst (Build qb)) =
       fst (BuildSelectQuery qb)
         @ (if orderBy qb = [] then [] else '' ORDER BY '' @ orderBy qb)
         @ (if 0 \<le> limit qb then '' LIMIT '' @ fmt_d (limit qb) else [])
         @ (if 0 \<le> offset qb then '' OFFSET '' @ fmt_d (offset qb) else [])"
proof -
  have a: "fst (Build (Offset (Limit (OrderBy (Where (Table ''users'') ''age > ?'' [GInt 18])
       ''id DESC'') 10) 5))
     = (''SELECT * FROM users WHERE age > ? ORDER BY id DESC LIMIT 10 OFFSET 5'', [GInt 18])"
    by (simp add: Build_def Offset_def Limit_def OrderBy_def Where_def Table_def
        WriteString_def fmt_d_def digits.simps)
  have b: "fst (Build (Table t)) = (''SELECT * FROM '' @ t, [])"
    by (simp add: Build_def Table_def WriteString_def)
  have c: "fst (fst (Build qb)) =
       fst (BuildSelectQuery qb)
         @ (if orderBy qb = [] then [] else '' ORDER BY '' @ orderBy qb)
         @ (if 0 \<le> limit qb then '' LIMIT '' @ fmt_d (limit qb) else [])
         @ (if 0 \<le> offset qb then '' OFFSET '' @ fmt_d (offset qb) else [])"
    by (simp add: Build_text BuildSelectQuery_text spec_order_def spec_limit_def
        spec_offset_def)
  show ?thesis
    using a b c by blast
qed

text \<open>
  C8. \<^verbatim>\<open>WhereIn(column, values)\<close> appends the one fragment \<open>column IN (?, ..., ?)\<close>,
  with one placeholder for each value, joined by a comma and a space, and appends the
  values to the parameters in their order; nothing else changes. On a fresh builder on
  \<open>t\<close>, \<^verbatim>\<open>WhereIn("id", [1,2,3])\<close> builds to \<open>SELECT * FROM t WHERE id IN (?, ?, ?)\<close>
  with the parameters \<open>[1,2,3]\<close>.
\<close>

theorem C8_whereIn_expansion:
  "WhereIn qb column vs =
     qb\<lparr>parameters := parameters qb @ vs,
        where' := where' qb
          @ [column @ '' IN ('' @ strings_Join (replicate (length vs) ''?'') '', '' @ '')'']\<rparr>
   \<and> count_placeholders (strings_Join (replicate (length vs) ''?'') '', '') = length vs
   \<and> fst (Build (WhereIn (Table ''t'') ''id'' [GInt 1, GInt 2, GInt 3]))
       = (''SELECT * FROM t WHERE id IN (?, ?, ?)'', [GInt 1, GInt 2, GInt 3])"
proof -
  have "fst (Build (WhereIn (Table ''t'') ''id'' [GInt 1, GInt 2, GInt 3]))
       = (''SELECT * FROM t WHERE id IN (?, ?, ?)'', [GInt 1, GInt 2, GInt 3])"
    by (simp add: WhereIn_eq Build_def Table_def WriteString_def numeral_3_eq_3)
  then show ?thesis
    using WhereIn_eq [of qb column vs]
    by (simp add: count_placeholders_def placeholders_replicate)
qed

subsection \<open>BulkInsert with no record\<close>

text \<open>
  C9. \<^verbatim>\<open>BulkInsert\<close> with an empty list of records returns the error
  \<open>no data to insert\<close>, calls the driver not at all, and leaves the builder as it was.
\<close>

theorem C9_bulkInsert_empty:
  "BulkInsert db qb [] = (Inl (GoError ''no data to insert''), [], qb)"
  by (simp add: BulkInsert_def)

subsection \<open>The two renderers\<close>

text \<open>
  C10. When \<^verbatim>\<open>orderBy\<close> is empty and \<^verbatim>\<open>limit\<close> and \<^verbatim>\<open>offset\<close> are both -1, \<open>Build\<close>
  and \<open>BuildSelectQuery\<close> return the same text.
\<close>

theorem C10_renderers_agree:
  assumes "orderBy qb = []" and "limit qb = - 1" and "offset qb = - 1"
  shows "fst (fst (Build qb)) = fst (BuildSelectQuery qb)"
  using assms
  by (simp add: Build_text BuildSelectQuery_text spec_order_def spec_limit_def
      spec_offset_def)

text \<open>C10 at a builder with two columns and one predicate.\<close>

theorem C10_renderers_agree_witness:
  "(orderBy (Where (Select (Table ''users'') [''id'', ''name'']) ''age > ?'' [GInt 18]) = []
      \<and> limit (Where (Select (Table ''users'') [''id'', ''name'']) ''age > ?'' [GInt 18]) = - 1
      \<and> offset (Where (Select (Table ''users'') [''id'', ''name'']) ''age > ?'' [GInt 18]) = - 1)
   \<and> fst (fst (Build (Where (Select (Table ''users'') [''id'', ''name'']) ''age > ?''
        [GInt 18])))
      = fst (BuildSelectQuery (Where (Select (Table ''users'') [''id'', ''name''])
          ''age > ?'' [GInt 18]))
   \<and> fst (BuildSelectQuery (Where (Select (Table ''users'') [''id'', ''name''])
          ''age > ?'' [GInt 18])) = ''SELECT id, name FROM users WHERE age > ?''"
proof -
  have h: "orderBy (Where (Select (Table ''users'') [''id'', ''name'']) ''age > ?'' [GInt 18]) = []"
    "limit (Where (Select (Table ''users'') [''id'', ''name'']) ''age > ?'' [GInt 18]) = - 1"
    "offset (Where (Select (Table ''users'') [''id'', ''name'']) ''age > ?'' [GInt 18]) = - 1"
    by (simp_all add: Where_def Select_def Table_def)
  have v: "fst (BuildSelectQuery (Where (Select (Table ''users'') [''id'', ''name''])
          ''age > ?'' [GInt 18])) = ''SELECT id, name FROM users WHERE age > ?''"
    by (simp add: BuildSelectQuery_def Where_def Select_def Table_def WriteString_def)
  show ?thesis
    using h v C10_renderers_agree [OF h] by simp
qed

end
